theory Spec2Isabelle
  imports Complex_Main "HOL-Library.Word"
begin

section \<open>Data model (lib/types.ts)\<close>

text \<open>
  A JavaScript string is a sequence of UTF-16 code units; \<open>charCodeAt\<close> reads one of
  them, a value below 65536. The upload identifier is such a sequence. The fixed
  messages of the recommendation engine are ASCII literals and are kept as HOL strings.
\<close>

type_synonym jsstring = "16 word list"

definition utf16 :: "string \<Rightarrow> jsstring" where
  "utf16 s = map (\<lambda>c. of_nat (of_char c)) s"

datatype LanguageOption = EN | HI | Regional

text \<open>The string value behind each member of the union type \<open>"EN" | "HI" | "Regional"\<close>.\<close>

fun language_string :: "LanguageOption \<Rightarrow> jsstring" where
  "language_string EN = utf16 ''EN''"
| "language_string HI = utf16 ''HI''"
| "language_string Regional = utf16 ''Regional''"

datatype DprStatus = uploaded | processing | completed | failed

record DPRFile =
  dpr_id :: jsstring
  dpr_filename :: jsstring
  dpr_uploadedAt :: jsstring
  dpr_language :: LanguageOption
  dpr_status :: DprStatus
  dpr_sizeBytes :: "nat option"

record ProjectProfile =
  geoCoordinates :: bool
  timeline :: bool

record Beneficiary =
  sdgMpiAligned :: bool
  kpisPresent :: bool

record Financial =
  gstComponents :: bool
  omFourYears :: bool

record Technical =
  gatiShaktiAligned :: bool
  sorBasis :: bool

record Certificates =
  landAvailability :: bool
  nonDuplication :: bool

record ValidationResult =
  projectProfile :: ProjectProfile
  beneficiary :: Beneficiary
  financial :: Financial
  technical :: Technical
  certificates :: Certificates

text \<open>
  A JavaScript number that comes out of the scorer is either a finite value or \<open>NaN\<close>
  (the quotient \<open>0 / 0\<close>). A finite double is represented by the rational it denotes.
  The infinities never arise in this module, since the only division by a value that can
  be zero has a numerator that is zero as well.
\<close>

datatype number = NaN | Num rat

datatype Grade = Excellent | Good | Fair | Poor

record Scores =
  completeness :: number
  compliance :: number
  technicalQuality :: number
  impactSustainability :: number
  total :: number
  grade :: Grade

record Eligibility =
  sizeCheckOk :: bool
  outOfRange :: "bool option"
  negativeList :: bool

record ConsistencyFlags =
  budgetMismatch :: bool
  timelineIssues :: bool
  missingData :: bool
  ineligibleSector :: "bool option"

record RiskPrediction =
  costOverrunRisk :: rat
  delayRisk :: rat
  implementationRisk :: rat

record ProcessingResult =
  validation :: ValidationResult
  scores :: Scores
  eligibility :: Eligibility
  flags :: ConsistencyFlags
  risk :: RiskPrediction
  recommendations :: "string list"

text \<open>The module-level variables \<open>dprs\<close> and \<open>resultsMap\<close> of lib/api.ts.\<close>

record Store =
  dprs :: "DPRFile list"
  resultsMap :: "jsstring \<rightharpoonup> ProcessingResult"

record Params =
  uploadId :: jsstring
  language :: LanguageOption

section \<open>Arithmetic of JavaScript numbers\<close>

text \<open>\<open>Math.round\<close> rounds to the nearest integer, a tie towards plus infinity.\<close>

definition Math_round :: "rat \<Rightarrow> rat" where
  "Math_round x = of_int \<lfloor>x + 1 / 2\<rfloor>"

text \<open>
  Rounding to a double: the nearest value with a significand of 53 bits, a tie to the
  even significand. \<open>binade a\<close> is the exponent \<open>e\<close> with \<open>2^e \<le> a < 2^(e+1)\<close>, so
  the doubles around \<open>a\<close> are the multiples of \<open>2^(e-52)\<close>. The exponent is not bounded
  here; the doubles are, but the quotient of two counts and its product with a maximal
  score are far from both ends of their range.
\<close>

fun bit_length :: "nat \<Rightarrow> nat" where
  "bit_length n = (if n = 0 then 0 else Suc (bit_length (n div 2)))"

declare bit_length.simps [simp del]

definition binade :: "rat \<Rightarrow> int" where
  "binade a = (if 1 \<le> a then int (bit_length (nat \<lfloor>a\<rfloor>)) - 1
               else - int (bit_length (nat (\<lceil>1 / a\<rceil> - 1))))"

definition pow2 :: "int \<Rightarrow> rat" where
  "pow2 e = (if 0 \<le> e then 2 ^ nat e else 1 / 2 ^ nat (- e))"

definition round_half_even :: "rat \<Rightarrow> int" where
  "round_half_even q =
     (let f = \<lfloor>q\<rfloor>; r = q - of_int f
      in if r < 1 / 2 then f else if 1 / 2 < r then f + 1 else if even f then f else f + 1)"

definition fl :: "rat \<Rightarrow> rat" where
  "fl x = (if x = 0 then 0
           else let a = \<bar>x\<bar>; u = pow2 (binade a - 52)
                in sgn x * (of_int (round_half_even (a / u)) * u))"

text \<open>Addition, \<open>Math.max\<close> and \<open>Math.min\<close> propagate \<open>NaN\<close>; every comparison with \<open>NaN\<close> is false.\<close>

fun num_add :: "number \<Rightarrow> number \<Rightarrow> number" where
  "num_add (Num a) (Num b) = Num (a + b)"
| "num_add _ _ = NaN"

fun Math_max :: "number \<Rightarrow> number \<Rightarrow> number" where
  "Math_max (Num a) (Num b) = Num (max a b)"
| "Math_max _ _ = NaN"

fun Math_min :: "number \<Rightarrow> number \<Rightarrow> number" where
  "Math_min (Num a) (Num b) = Num (min a b)"
| "Math_min _ _ = NaN"

fun num_ge :: "number \<Rightarrow> number \<Rightarrow> bool" where
  "num_ge (Num a) (Num b) = (a \<ge> b)"
| "num_ge _ _ = False"

fun num_gt :: "number \<Rightarrow> number \<Rightarrow> bool" where
  "num_gt (Num a) (Num b) = (a > b)"
| "num_gt _ _ = False"

fun num_lt :: "number \<Rightarrow> number \<Rightarrow> bool" where
  "num_lt (Num a) (Num b) = (a < b)"
| "num_lt _ _ = False"

section \<open>The helpers of lib/api.ts\<close>

text \<open>
  \<open>score\<close>: the count of true flags (the \<open>reduce\<close>) over the length, times \<open>outOf\<close>,
  rounded. The count and the length are integers; their quotient is rounded to a double,
  and so is its product with \<open>outOf\<close>, a finite double. With an empty list the quotient is
  \<open>0 / 0\<close>, that is \<open>NaN\<close>, and \<open>Math.round (NaN * outOf)\<close> is \<open>NaN\<close>; nothing is raised.
\<close>

definition score :: "bool list \<Rightarrow> rat \<Rightarrow> number" where
  "score flgs outOf =
     (let cnt = foldl (\<lambda>acc f. acc + (if f then 1 else 0)) (0::nat) flgs;
          ratio = fl (of_nat cnt / of_nat (length flgs))
      in if length flgs = 0 then NaN
         else Num (Math_round (fl (ratio * outOf))))"

text \<open>
  \<open>hash\<close>: \<open>h = (Math.imul(31, h) + s.charCodeAt(i)) | 0\<close> keeps \<open>h\<close> a signed 32-bit
  integer, so the loop is arithmetic on 32-bit words; \<open>Math.abs\<close> is then taken of the
  signed value as a number (for \<open>h = -2^31\<close> the result is \<open>2^31\<close>).
\<close>

fun hash_loop :: "32 word \<Rightarrow> jsstring \<Rightarrow> 32 word" where
  "hash_loop h [] = h"
| "hash_loop h (c # s) = hash_loop (31 * h + ucast c) s"

definition hash :: "jsstring \<Rightarrow> int" where
  "hash s = \<bar>sint (hash_loop 0 s)\<bar>"

definition clamp01 :: "rat \<Rightarrow> rat" where
  "clamp01 x = max 0 (min 1 x)"

definition buildRecommendations :: "Scores \<Rightarrow> ConsistencyFlags \<Rightarrow> RiskPrediction \<Rightarrow> string list" where
  "buildRecommendations scs flgs rsk =
     (let recs = [];
          recs = (if budgetMismatch flgs
                  then recs @ [''Review budget allocations to resolve mismatches against scope.'']
                  else recs);
          recs = (if timelineIssues flgs
                  then recs @ [''Adjust project timeline to reflect realistic milestones.'']
                  else recs);
          recs = (if missingData flgs
                  then recs @ [''Provide missing documentation and KPI evidence.'']
                  else recs);
          recs = (if delayRisk rsk > 1 / 2
                  then recs @ [''Increase monitoring cadence and add buffer for critical path items.'']
                  else recs);
          recs = (if num_lt (compliance scs) (Num 20)
                  then recs @ [''Ensure GST, O&M, and certificates are fully documented.'']
                  else recs);
          recs = (if num_lt (technicalQuality scs) (Num 18)
                  then recs @ [''Align design with GatiShakti and SOR standards.'']
                  else recs);
          recs = (if length recs = 0
                  then recs @ [''Project is in strong shape. Proceed to approval with standard oversight.'']
                  else recs)
      in recs)"

text \<open>The conditional expression that picks the grade from the total (line 75).\<close>

definition grade_of_total :: "number \<Rightarrow> Grade" where
  "grade_of_total t =
     (if num_ge t (Num 90) then Excellent
      else if num_ge t (Num 75) then Good
      else if num_ge t (Num 60) then Fair
      else Poor)"

section \<open>processDocument\<close>

text \<open>
  The entry point. The seed is a non-negative integer, on which JavaScript's \<open>%\<close> is
  \<open>mod\<close>. The function returns its result and leaves it in \<open>resultsMap\<close>, and marks the
  document completed in \<open>dprs\<close>; the store is passed in and returned. The simulated
  delay (\<open>sleep\<close>) has no counterpart here. The risks and the argument of \<open>Math.round\<close>
  for impact and sustainability are computed exactly, without the rounding of doubles.
\<close>

definition processDocument :: "Params \<Rightarrow> Store \<Rightarrow> ProcessingResult \<times> Store" where
  "processDocument params st =
     (let seed = hash (uploadId params @ language_string (language params));
          vr = \<lparr> projectProfile = \<lparr> geoCoordinates = True, timeline = (seed mod 7 \<noteq> 0) \<rparr>,
                 beneficiary = \<lparr> sdgMpiAligned = (seed mod 5 \<noteq> 0), kpisPresent = True \<rparr>,
                 financial = \<lparr> gstComponents = (seed mod 3 \<noteq> 0), omFourYears = (seed mod 4 \<noteq> 0) \<rparr>,
                 technical = \<lparr> gatiShaktiAligned = (seed mod 6 \<noteq> 0), sorBasis = True \<rparr>,
                 certificates = \<lparr> landAvailability = (seed mod 8 \<noteq> 0), nonDuplication = True \<rparr> \<rparr>;
          completeness' = score
            [geoCoordinates (projectProfile vr), timeline (projectProfile vr),
             kpisPresent (beneficiary vr)]
            30;
          compliance' = score
            [gstComponents (financial vr), omFourYears (financial vr),
             nonDuplication (certificates vr), landAvailability (certificates vr)]
            25;
          technicalQuality' = score [gatiShaktiAligned (technical vr), sorBasis (technical vr)] 25;
          baseRisk = rat_of_int (seed mod 100) / 100;
          risk' = \<lparr> costOverrunRisk =
                      clamp01 (baseRisk * (7 / 10) + (if omFourYears (financial vr) then 0 else 2 / 10)),
                    delayRisk =
                      clamp01 (baseRisk * (6 / 10) + (if timeline (projectProfile vr) then 0 else 25 / 100)),
                    implementationRisk =
                      clamp01 (baseRisk * (5 / 10)
                               + (if gatiShaktiAligned (technical vr) then 0 else 2 / 10)) \<rparr>;
          impactSustainability' = Num (Math_round
            ((1 - (costOverrunRisk risk' + delayRisk risk' + implementationRisk risk') / 3) * 20));
          totalRaw = num_add (num_add (num_add completeness' compliance') technicalQuality')
                       impactSustainability';
          total' = Math_max (Num 0) (Math_min (Num 100) totalRaw);
          grade' = grade_of_total total';
          scores' = \<lparr> completeness = completeness', compliance = compliance',
                      technicalQuality = technicalQuality',
                      impactSustainability = impactSustainability',
                      total = total', grade = grade' \<rparr>;
          sizeCheckOk' = (seed mod 2 = 0);
          eligibility' = \<lparr> sizeCheckOk = sizeCheckOk', outOfRange = Some (\<not> sizeCheckOk'),
                           negativeList = (seed mod 9 = 0) \<rparr>;
          flags' = \<lparr> budgetMismatch = (seed mod 4 = 0),
                     timelineIssues = (\<not> timeline (projectProfile vr)),
                     missingData = (seed mod 6 = 0),
                     ineligibleSector = (if negativeList eligibility' then Some True else None) \<rparr>;
          recommendations' = buildRecommendations scores' flags' risk';
          result = \<lparr> validation = vr, scores = scores', eligibility = eligibility',
                     flags = flags', risk = risk', recommendations = recommendations' \<rparr>
      in (result,
          \<lparr> dprs = map (\<lambda>d. if dpr_id d = uploadId params then d\<lparr>dpr_status := completed\<rparr> else d)
                        (dprs st),
            resultsMap = (resultsMap st)(uploadId params \<mapsto> result) \<rparr>))"

text \<open>The module starts with no documents and no results.\<close>

definition initial_store :: Store where
  "initial_store = \<lparr> dprs = [], resultsMap = Map.empty \<rparr>"

section \<open>Notions of the specification\<close>

text \<open>The seed of a call: the first binding of \<open>processDocument\<close>.\<close>

definition seed_of :: "Params \<Rightarrow> int" where
  "seed_of p = hash (uploadId p @ language_string (language p))"

text \<open>The base risk: the seed's last two decimal digits, as a fraction of 100.\<close>

definition base_risk :: "Params \<Rightarrow> rat" where
  "base_risk p = rat_of_int (hash (uploadId p @ language_string (language p)) mod 100) / 100"

text \<open>
  The specification's scorer: \<open>round (max_score * (count_true / count_total))\<close>, with
  the checks that hold counted by a filter.
\<close>

definition count_true :: "bool list \<Rightarrow> nat" where
  "count_true flgs = length (filter (\<lambda>f. f) flgs)"

definition spec_score :: "nat \<Rightarrow> nat \<Rightarrow> rat \<Rightarrow> rat" where
  "spec_score n_true n_total max_score =
     of_int (round (max_score * (of_nat n_true / of_nat n_total)))"


text \<open>The percentage of the maximal total that a total amounts to.\<close>

definition percentage :: "rat \<Rightarrow> rat \<Rightarrow> rat" where
  "percentage t max_total = 100 * t / max_total"

text \<open>The order of the grades: Excellent above Good above Fair above Poor.\<close>

fun tier :: "Grade \<Rightarrow> nat" where
  "tier Poor = 0"
| "tier Fair = 1"
| "tier Good = 2"
| "tier Excellent = 3"

text \<open>
  The specification's recommendation engine: a fixed ordered list of rules, each a
  predicate on the result with its message; the messages of the rules that hold.
\<close>

definition rules :: "Scores \<Rightarrow> ConsistencyFlags \<Rightarrow> RiskPrediction \<Rightarrow> (bool \<times> string) list" where
  "rules scs flgs rsk =
     [(budgetMismatch flgs, ''Review budget allocations to resolve mismatches against scope.''),
      (timelineIssues flgs, ''Adjust project timeline to reflect realistic milestones.''),
      (missingData flgs, ''Provide missing documentation and KPI evidence.''),
      (delayRisk rsk > 1 / 2, ''Increase monitoring cadence and add buffer for critical path items.''),
      (num_lt (compliance scs) (Num 20), ''Ensure GST, O&M, and certificates are fully documented.''),
      (num_lt (technicalQuality scs) (Num 18), ''Align design with GatiShakti and SOR standards.'')]"

definition fired :: "Scores \<Rightarrow> ConsistencyFlags \<Rightarrow> RiskPrediction \<Rightarrow> string list" where
  "fired scs flgs rsk = map snd (filter fst (rules scs flgs rsk))"

definition fallback_message :: string where
  "fallback_message = ''Project is in strong shape. Proceed to approval with standard oversight.''"

section \<open>Rounding to doubles\<close>

text \<open>
  \<open>binade\<close> brackets its argument between two powers of two. \<open>fl x\<close> is a multiple of
  the spacing of the doubles around \<open>x\<close>, with a significand of 53 bits, and it is at
  most half that spacing away from \<open>x\<close>.
\<close>

lemma bit_length_bounds: "0 < n \<Longrightarrow> 2 ^ (bit_length n - 1) \<le> n \<and> n < 2 ^ bit_length n"
proof (induction n rule: bit_length.induct)
  case (1 n)
  show ?case
  proof (cases "n div 2 = 0")
    case True
    with 1(2) have "n = 1" by (simp add: div_eq_0_iff) 
    then show ?thesis by (simp add: bit_length.simps)
  next
    case False
    then have pos: "0 < n div 2" by simp
    from 1(1) [OF _ pos] 1(2)
    have ih: "2 ^ (bit_length (n div 2) - 1) \<le> n div 2" "n div 2 < 2 ^ bit_length (n div 2)"
      by simp_all
    have bl: "bit_length n = Suc (bit_length (n div 2))"
      using 1(2) by (subst bit_length.simps) simp
    have k: "0 < bit_length (n div 2)"
      using pos by (subst bit_length.simps) simp
    then have "(2::nat) ^ bit_length (n div 2) = 2 * 2 ^ (bit_length (n div 2) - 1)"
      by (cases "bit_length (n div 2)") simp_all
    with ih have "2 ^ bit_length (n div 2) \<le> n" "n < 2 * 2 ^ bit_length (n div 2)"
      by linarith+
    then show ?thesis by (simp add: bl)
  qed
qed

lemma pow2_pos: "0 < pow2 e"
  by (simp add: pow2_def)

lemma pow2_Suc: "pow2 (e + 1) = 2 * pow2 e"
proof (cases "0 \<le> e")
  case True
  then show ?thesis by (simp add: pow2_def nat_add_distrib)
next
  case False
  then have "nat (- e) = Suc (nat (- (e + 1)))" by linarith
  then show ?thesis using False by (simp add: pow2_def)
qed

lemma binade_bracket:
  assumes "0 < a"
  shows "pow2 (binade a) \<le> a \<and> a < pow2 (binade a + 1)"
proof (cases "1 \<le> a")
  case True
  define n where "n = nat \<lfloor>a\<rfloor>"
  have n: "0 < n" "rat_of_nat n \<le> a" "a < rat_of_nat n + 1"
    using True unfolding n_def by (simp_all add: le_floor_iff) linarith+
  have b: "2 ^ (bit_length n - 1) \<le> n" "n < 2 ^ bit_length n"
    using bit_length_bounds [OF n(1)] by simp_all
  have k: "0 < bit_length n" using b(2) n(1) by (cases "bit_length n") simp_all
  have e: "binade a = int (bit_length n) - 1"
    using True by (simp add: binade_def n_def)
  have lo: "pow2 (binade a) = 2 ^ (bit_length n - 1)"
    using k by (simp add: e pow2_def nat_diff_distrib')
  have hi: "pow2 (binade a + 1) = 2 ^ bit_length n"
    by (simp add: e pow2_def)
  have "rat_of_nat (2 ^ (bit_length n - 1)) \<le> rat_of_nat n"
    using b(1) by (rule of_nat_mono)
  then have low: "(2::rat) ^ (bit_length n - 1) \<le> rat_of_nat n" by simp
  have "Suc n \<le> 2 ^ bit_length n" using b(2) by simp
  then have "rat_of_nat (Suc n) \<le> rat_of_nat (2 ^ bit_length n)" by (rule of_nat_mono)
  then have high: "rat_of_nat n + 1 \<le> (2::rat) ^ bit_length n" by simp
  have "pow2 (binade a) \<le> a" unfolding lo using low n(2) by (rule order_trans)
  moreover have "a < pow2 (binade a + 1)" unfolding hi using n(3) high by (rule less_le_trans)
  ultimately show ?thesis by simp
next
  case False
  define y where "y = 1 / a"
  define m where "m = nat (\<lceil>y\<rceil> - 1)"
  have y: "1 < y" using False assms by (simp add: y_def)
  have c: "2 \<le> \<lceil>y\<rceil>" using y by linarith
  have m: "0 < m" "rat_of_nat m < y" "y \<le> rat_of_nat m + 1"
    using c unfolding m_def by simp_all linarith+
  have b: "2 ^ (bit_length m - 1) \<le> m" "m < 2 ^ bit_length m"
    using bit_length_bounds [OF m(1)] by simp_all
  have k: "0 < bit_length m" using b(2) m(1) by (cases "bit_length m") simp_all
  have e: "binade a = - int (bit_length m)"
    using False by (simp add: binade_def m_def y_def)
  have lo: "pow2 (binade a) = 1 / 2 ^ bit_length m"
    using k by (simp add: e pow2_def)
  have hi: "pow2 (binade a + 1) = 1 / 2 ^ (bit_length m - 1)"
  proof -
    have "pow2 (binade a + 1) = 2 * pow2 (binade a)" by (rule pow2_Suc)
    also have "\<dots> = 2 / 2 ^ bit_length m" by (simp add: lo)
    also have "\<dots> = 1 / 2 ^ (bit_length m - 1)"
      using k by (cases "bit_length m") simp_all
    finally show ?thesis .
  qed
  have "rat_of_nat (2 ^ (bit_length m - 1)) \<le> rat_of_nat m"
    using b(1) by (rule of_nat_mono)
  then have "(2::rat) ^ (bit_length m - 1) \<le> rat_of_nat m" by simp
  then have low: "2 ^ (bit_length m - 1) < y" using m(2) by (rule le_less_trans)
  have "Suc m \<le> 2 ^ bit_length m" using b(2) by simp
  then have "rat_of_nat (Suc m) \<le> rat_of_nat (2 ^ bit_length m)" by (rule of_nat_mono)
  then have "rat_of_nat m + 1 \<le> (2::rat) ^ bit_length m" by simp
  with m(3) have high: "y \<le> 2 ^ bit_length m" by (rule order_trans)
  have a: "a = 1 / y" by (simp add: y_def)
  have "1 / 2 ^ bit_length m \<le> a"
    unfolding a using high y by (simp add: field_simps)
  moreover have "a < 1 / 2 ^ (bit_length m - 1)"
    unfolding a using low y by (simp add: field_simps)
  ultimately show ?thesis by (simp add: lo hi)
qed

lemma round_half_even_near:
  "\<bar>rat_of_int (round_half_even q) - q\<bar> \<le> 1 / 2"
proof -
  have f: "rat_of_int \<lfloor>q\<rfloor> \<le> q" "q < rat_of_int \<lfloor>q\<rfloor> + 1"
    by linarith+
  show ?thesis
    unfolding round_half_even_def Let_def using f by (auto simp add: abs_le_iff)
qed

lemma round_half_even_between:
  assumes "rat_of_int lo \<le> q" "q \<le> rat_of_int hi"
  shows "lo \<le> round_half_even q \<and> round_half_even q \<le> hi"
proof -
  have lo: "lo \<le> \<lfloor>q\<rfloor>" using assms(1) by (simp add: le_floor_iff)
  have hi: "\<lfloor>q\<rfloor> \<le> hi" using assms(2) by (simp add: floor_le_iff) 
  have eq: "\<lfloor>q\<rfloor> + 1 \<le> hi" if "rat_of_int \<lfloor>q\<rfloor> < q"
  proof -
    have "rat_of_int \<lfloor>q\<rfloor> < rat_of_int hi" using that assms(2) by linarith
    then show ?thesis by simp
  qed
  show ?thesis
    unfolding round_half_even_def Let_def using lo hi eq by auto
qed

lemma fl_near:
  assumes "x \<noteq> 0"
  shows "\<bar>fl x - x\<bar> \<le> pow2 (binade \<bar>x\<bar> - 52) / 2"
proof -
  define u where "u = pow2 (binade \<bar>x\<bar> - 52)"
  define m where "m = round_half_even (\<bar>x\<bar> / u)"
  have u: "0 < u" by (simp add: u_def pow2_pos)
  have flx: "fl x = sgn x * (rat_of_int m * u)"
    using assms by (simp add: fl_def Let_def u_def m_def)
  have "fl x - x = sgn x * (rat_of_int m * u - \<bar>x\<bar>)"
    by (simp add: flx right_diff_distrib sgn_mult_abs)
  then have "\<bar>fl x - x\<bar> = \<bar>sgn x\<bar> * \<bar>rat_of_int m * u - \<bar>x\<bar>\<bar>"
    by (simp only: abs_mult)
  also have "\<dots> = \<bar>rat_of_int m * u - \<bar>x\<bar>\<bar>"
    using assms by (simp add: abs_sgn_eq)
  also have "rat_of_int m * u - \<bar>x\<bar> = (rat_of_int m - \<bar>x\<bar> / u) * u"
    using u by (simp add: left_diff_distrib)
  also have "\<bar>(rat_of_int m - \<bar>x\<bar> / u) * u\<bar> = \<bar>rat_of_int m - \<bar>x\<bar> / u\<bar> * u"
    using u by (simp add: abs_mult)
  also have "\<dots> \<le> 1 / 2 * u"
    using round_half_even_near [of "\<bar>x\<bar> / u"] u unfolding m_def
    by (intro mult_right_mono) simp_all
  finally show ?thesis by (simp add: u_def)
qed

lemma fl_grid:
  assumes "x \<noteq> 0"
  shows "\<exists>m. \<bar>fl x\<bar> = rat_of_int m * pow2 (binade \<bar>x\<bar> - 52) \<and> 2 ^ 52 \<le> m \<and> m \<le> 2 ^ 53"
proof -
  define e where "e = binade \<bar>x\<bar>"
  define u where "u = pow2 (e - 52)"
  define m where "m = round_half_even (\<bar>x\<bar> / u)"
  have u: "0 < u" by (simp add: u_def pow2_pos)
  have br: "pow2 e \<le> \<bar>x\<bar>" "\<bar>x\<bar> < pow2 (e + 1)"
    using binade_bracket [of "\<bar>x\<bar>"] assms by (simp_all add: e_def)
  have scale: "pow2 e = 2 ^ 52 * u"
  proof -
    have "pow2 (e - 52 + int n) = 2 ^ n * pow2 (e - 52)" for n
    proof (induction n)
      case 0
      show ?case by simp
    next
      case (Suc n)
      have "pow2 (e - 52 + int (Suc n)) = pow2 ((e - 52 + int n) + 1)"
        by (simp add: add.assoc)
      also have "\<dots> = 2 * pow2 (e - 52 + int n)" by (rule pow2_Suc)
      finally show ?case by (simp add: Suc)
    qed
    from this [of 52] show ?thesis by (simp add: u_def)
  qed
  have top: "pow2 (e + 1) = 2 ^ 53 * u"
    by (simp add: pow2_Suc scale)
  have "2 ^ 52 \<le> \<bar>x\<bar> / u"
    using br(1) u unfolding scale by (simp add: pos_le_divide_eq)
  moreover have "\<bar>x\<bar> / u \<le> 2 ^ 53"
    using br(2) u unfolding top by (simp add: pos_divide_le_eq)
  ultimately have q: "rat_of_int (2 ^ 52) \<le> \<bar>x\<bar> / u" "\<bar>x\<bar> / u \<le> rat_of_int (2 ^ 53)"
    by simp_all
  have m: "2 ^ 52 \<le> m" "m \<le> 2 ^ 53"
    using round_half_even_between [OF q] by (simp_all add: m_def)
  have "\<bar>fl x\<bar> = rat_of_int m * u"
    using assms u m by (simp add: fl_def Let_def u_def e_def m_def abs_mult)
  with m show ?thesis unfolding u_def e_def by blast
qed

section \<open>The result of processDocument, field by field\<close>

lemma hash_nonneg: "0 \<le> hash s"
  by (simp add: hash_def)

lemma hash_le: "hash s \<le> 2 ^ 31"
proof -
  have "- (2 ^ 31) \<le> sint (hash_loop 0 s)" "sint (hash_loop 0 s) < 2 ^ 31"
    using sint_ge [of "hash_loop 0 s"] sint_lt [of "hash_loop 0 s"] by simp_all
  then show ?thesis by (simp add: hash_def abs_le_iff)
qed

lemma pd_validation: "validation (fst (processDocument p s)) =
   \<lparr> projectProfile = \<lparr> geoCoordinates = True, timeline = (seed_of p mod 7 \<noteq> 0) \<rparr>,
                 beneficiary = \<lparr> sdgMpiAligned = (seed_of p mod 5 \<noteq> 0), kpisPresent = True \<rparr>,
                 financial = \<lparr> gstComponents = (seed_of p mod 3 \<noteq> 0), omFourYears = (seed_of p mod 4 \<noteq> 0) \<rparr>,
                 technical = \<lparr> gatiShaktiAligned = (seed_of p mod 6 \<noteq> 0), sorBasis = True \<rparr>,
                 certificates = \<lparr> landAvailability = (seed_of p mod 8 \<noteq> 0), nonDuplication = True \<rparr> \<rparr>"
  by (simp add: processDocument_def Let_def seed_of_def)

lemma pd_completeness: "completeness (scores (fst (processDocument p s))) =
    score [True, seed_of p mod 7 \<noteq> 0, True] 30"
  by (simp add: processDocument_def Let_def seed_of_def)

lemma pd_compliance: "compliance (scores (fst (processDocument p s))) =
    score [seed_of p mod 3 \<noteq> 0, seed_of p mod 4 \<noteq> 0, True, seed_of p mod 8 \<noteq> 0] 25"
  by (simp add: processDocument_def Let_def seed_of_def)

lemma pd_technicalQuality: "technicalQuality (scores (fst (processDocument p s))) =
    score [seed_of p mod 6 \<noteq> 0, True] 25"
  by (simp add: processDocument_def Let_def seed_of_def)

lemma pd_risk: "risk (fst (processDocument p s)) =
   \<lparr> costOverrunRisk =
        clamp01 (rat_of_int (seed_of p mod 100) / 100 * (7 / 10) + (if seed_of p mod 4 \<noteq> 0 then 0 else 2 / 10)),
      delayRisk =
        clamp01 (rat_of_int (seed_of p mod 100) / 100 * (6 / 10) + (if seed_of p mod 7 \<noteq> 0 then 0 else 25 / 100)),
      implementationRisk =
        clamp01 (rat_of_int (seed_of p mod 100) / 100 * (5 / 10) + (if seed_of p mod 6 \<noteq> 0 then 0 else 2 / 10)) \<rparr>"
  by (simp add: processDocument_def Let_def seed_of_def)

lemma pd_impactSustainability: "impactSustainability (scores (fst (processDocument p s))) =
   Num (Math_round ((1 - (costOverrunRisk (risk (fst (processDocument p s)))
                          + delayRisk (risk (fst (processDocument p s)))
                          + implementationRisk (risk (fst (processDocument p s)))) / 3) * 20))"
  by (simp add: processDocument_def Let_def)

lemma pd_total: "total (scores (fst (processDocument p s))) =
   Math_max (Num 0) (Math_min (Num 100)
     (num_add (num_add (num_add (completeness (scores (fst (processDocument p s))))
                                (compliance (scores (fst (processDocument p s)))))
                       (technicalQuality (scores (fst (processDocument p s)))))
              (impactSustainability (scores (fst (processDocument p s))))))"
  by (simp add: processDocument_def Let_def)

lemma pd_grade: "grade (scores (fst (processDocument p s))) =
   grade_of_total (total (scores (fst (processDocument p s))))"
  by (simp add: processDocument_def Let_def)

lemma pd_eligibility: "eligibility (fst (processDocument p s)) =
   \<lparr> sizeCheckOk = (seed_of p mod 2 = 0), outOfRange = Some (\<not> (seed_of p mod 2 = 0)),
     negativeList = (seed_of p mod 9 = 0) \<rparr>"
  by (simp add: processDocument_def Let_def seed_of_def)

lemma pd_flags: "flags (fst (processDocument p s)) =
   \<lparr> budgetMismatch = (seed_of p mod 4 = 0),
     timelineIssues = (\<not> (seed_of p mod 7 \<noteq> 0)),
     missingData = (seed_of p mod 6 = 0),
     ineligibleSector = (if seed_of p mod 9 = 0 then Some True else None) \<rparr>"
  by (simp add: processDocument_def Let_def seed_of_def)

lemma pd_recommendations: "recommendations (fst (processDocument p s)) =
   buildRecommendations (scores (fst (processDocument p s))) (flags (fst (processDocument p s)))
      (risk (fst (processDocument p s)))"
  by (simp add: processDocument_def Let_def)

subsection \<open>The scorer at the three lists of the pipeline\<close>

text \<open>
  The values of \<open>score\<close> on every list of three checks out of 30, of four checks out of
  25 and of two checks out of 25, by evaluation.
\<close>

lemma score_table3:
  "score [False, False, False] 30 = Num 0 \<and>
   score [False, False, True] 30 = Num 10 \<and>
   score [False, True, False] 30 = Num 10 \<and>
   score [False, True, True] 30 = Num 20 \<and>
   score [True, False, False] 30 = Num 10 \<and>
   score [True, False, True] 30 = Num 20 \<and>
   score [True, True, False] 30 = Num 20 \<and>
   score [True, True, True] 30 = Num 30"
  by code_simp

lemma score_table4:
  "score [False, False, False, False] 25 = Num 0 \<and>
   score [False, False, False, True] 25 = Num 6 \<and>
   score [False, False, True, False] 25 = Num 6 \<and>
   score [False, False, True, True] 25 = Num 13 \<and>
   score [False, True, False, False] 25 = Num 6 \<and>
   score [False, True, False, True] 25 = Num 13 \<and>
   score [False, True, True, False] 25 = Num 13 \<and>
   score [False, True, True, True] 25 = Num 19 \<and>
   score [True, False, False, False] 25 = Num 6 \<and>
   score [True, False, False, True] 25 = Num 13 \<and>
   score [True, False, True, False] 25 = Num 13 \<and>
   score [True, False, True, True] 25 = Num 19 \<and>
   score [True, True, False, False] 25 = Num 13 \<and>
   score [True, True, False, True] 25 = Num 19 \<and>
   score [True, True, True, False] 25 = Num 19 \<and>
   score [True, True, True, True] 25 = Num 25"
  by code_simp

lemma score_table2:
  "score [False, False] 25 = Num 0 \<and>
   score [False, True] 25 = Num 13 \<and>
   score [True, False] 25 = Num 13 \<and>
   score [True, True] 25 = Num 25"
  by code_simp

lemma score3: "score [True, b, True] 30 = Num (if b then 30 else 20)"
  by (cases b) (simp_all add: score_table3)

lemma score2: "score [g, True] 25 = Num (if g then 25 else 13)"
  by (cases g) (simp_all add: score_table2)

lemma score4: "score [a, b, True, c] 25 \<in> {Num 6, Num 13, Num 19, Num 25}"
  by (cases a; cases b; cases c) (simp_all add: score_table4)

lemma clamp01_bounds: "0 \<le> clamp01 x \<and> clamp01 x \<le> 1"
  by (simp add: clamp01_def)

lemma Math_round_bounds: "0 \<le> x \<Longrightarrow> x \<le> 20 \<Longrightarrow> 0 \<le> Math_round x \<and> Math_round x \<le> 20"
  unfolding Math_round_def by (simp add: le_floor_iff floor_le_iff)

lemma floor_rat_numeral_div: "\<lfloor>numeral a / numeral b :: rat\<rfloor> = numeral a div numeral b"
  using floor_divide_of_int_eq [of "numeral a" "numeral b", where ?'a = rat] by simp

lemma floor_rat_one_div: "\<lfloor>1 / numeral b :: rat\<rfloor> = 1 div numeral b"
  using floor_divide_of_int_eq [of 1 "numeral b", where ?'a = rat] by simp

lemmas js_eval = score_table3 score_table4 score_table2 Math_round_def clamp01_def
  floor_rat_numeral_div floor_rat_one_div

lemma risks_in_unit:
  "0 \<le> costOverrunRisk (risk (fst (processDocument p s))) \<and>
   costOverrunRisk (risk (fst (processDocument p s))) \<le> 1 \<and>
   0 \<le> delayRisk (risk (fst (processDocument p s))) \<and>
   delayRisk (risk (fst (processDocument p s))) \<le> 1 \<and>
   0 \<le> implementationRisk (risk (fst (processDocument p s))) \<and>
   implementationRisk (risk (fst (processDocument p s))) \<le> 1"
  by (simp add: pd_risk clamp01_bounds)

lemma impact_bounds:
  "\<exists>i. impactSustainability (scores (fst (processDocument p s))) = Num i \<and> 0 \<le> i \<and> i \<le> 20"
proof -
  let ?r = "fst (processDocument p s)"
  let ?x = "(1 - (costOverrunRisk (risk ?r) + delayRisk (risk ?r) + implementationRisk (risk ?r)) / 3) * 20"
  have "0 \<le> ?x" "?x \<le> 20"
    using risks_in_unit [of p s] by simp_all
  then have "0 \<le> Math_round ?x \<and> Math_round ?x \<le> 20"
    by (rule Math_round_bounds)
  then show ?thesis
    by (simp add: pd_impactSustainability)
qed

lemma compliance_bounds:
  "\<exists>k. compliance (scores (fst (processDocument p s))) = Num k \<and> 0 \<le> k \<and> k \<le> 25"
  using score4 [of "seed_of p mod 3 \<noteq> 0" "seed_of p mod 4 \<noteq> 0" "seed_of p mod 8 \<noteq> 0"]
  by (auto simp add: pd_compliance)

lemma total_is_Num: "\<exists>t. total (scores (fst (processDocument p s))) = Num t"
proof -
  let ?r = "fst (processDocument p s)"
  obtain c where c: "completeness (scores ?r) = Num c" by (simp add: pd_completeness score3)
  obtain k where k: "compliance (scores ?r) = Num k" using compliance_bounds by blast
  obtain t where t: "technicalQuality (scores ?r) = Num t" by (simp add: pd_technicalQuality score2)
  show ?thesis by (simp add: pd_total c k t pd_impactSustainability)
qed

lemma base_risk_seed: "base_risk p = rat_of_int (seed_of p mod 100) / 100"
  by (simp add: base_risk_def seed_of_def)

lemma grade_of_total_Num:
  "grade_of_total (Num t) =
     (if 90 \<le> t then Excellent else if 75 \<le> t then Good else if 60 \<le> t then Fair else Poor)"
  by (simp add: grade_of_total_def)

subsection \<open>The scorer and the recommendation engine against the specification's wording\<close>


lemma Math_round_round: "Math_round x = of_int (round x)"
  by (simp add: Math_round_def round_def)






text \<open>
  Away from these lists the rounding of doubles shows: for seven checks of ten that hold
  and a maximal score of 45 the product is 31.499999999999996 and the score 31, where
  the exact product is 31.5 and rounds to 32.
\<close>

lemma score_seven_of_ten:
  "score [True, True, True, True, True, True, True, False, False, False] 45 = Num 31 \<and>
   spec_score (count_true [True, True, True, True, True, True, True, False, False, False])
     (length [True, True, True, True, True, True, True, False, False, False]) 45 = 32"
  by code_simp

lemma pushes_are_filter:
  "(let recs = [];
        recs = (if b1 then recs @ [m1] else recs);
        recs = (if b2 then recs @ [m2] else recs);
        recs = (if b3 then recs @ [m3] else recs);
        recs = (if b4 then recs @ [m4] else recs);
        recs = (if b5 then recs @ [m5] else recs);
        recs = (if b6 then recs @ [m6] else recs);
        recs = (if length recs = 0 then recs @ [fb] else recs)
    in recs) =
   (if map snd (filter fst [(b1, m1), (b2, m2), (b3, m3), (b4, m4), (b5, m5), (b6, m6)]) = []
    then [fb]
    else map snd (filter fst [(b1, m1), (b2, m2), (b3, m3), (b4, m4), (b5, m5), (b6, m6)]))"
  by (cases b1; cases b2; cases b3; cases b4; cases b5; cases b6) simp_all

lemma buildRecommendations_fired:
  "buildRecommendations scs flgs rsk =
     (if fired scs flgs rsk = [] then [fallback_message] else fired scs flgs rsk)"
  unfolding buildRecommendations_def fired_def rules_def fallback_message_def
  by (rule pushes_are_filter)

lemma buildRecommendations_nonempty: "1 \<le> length (buildRecommendations scs flgs rsk)"
  by (cases "fired scs flgs rsk") (simp_all add: buildRecommendations_fired)

subsection \<open>Margins of the two decisions taken on a risk\<close>

text \<open>
  The risks are exact rationals here and doubles in the source. A risk decides a discrete
  outcome in two places: the argument of \<open>Math.round\<close> for impact and sustainability, and
  the comparison of the delay risk with 0.5. In exact arithmetic the first stays at least
  1/150 away from every tie \<open>n + 1/2\<close>, the second at least 1/500 away from 1/2; the
  clamp never cuts.
\<close>

lemma clamp01_id: "0 \<le> x \<Longrightarrow> x \<le> 1 \<Longrightarrow> clamp01 x = x"
  by (simp add: clamp01_def)

lemma tie_margin: "1 / 150 \<le> \<bar>rat_of_int m / 75 - (of_int n + 1 / 2)\<bar>"
proof -
  have eq: "rat_of_int m / 75 - (of_int n + 1 / 2) = rat_of_int (2 * m - 150 * n - 75) / 150"
    by (simp add: field_simps)
  have "2 * m - 150 * n - 75 \<noteq> 0" by presburger
  then have "1 \<le> \<bar>2 * m - 150 * n - 75\<bar>" by linarith
  then have "1 \<le> \<bar>rat_of_int (2 * m - 150 * n - 75)\<bar>"
    by (metis of_int_1 of_int_abs of_int_le_iff)
  then show ?thesis
    unfolding eq by (simp add: abs_divide)
qed

lemma risk_unclamped:
  "risk (fst (processDocument p s)) =
   \<lparr> costOverrunRisk =
        rat_of_int (seed_of p mod 100) / 100 * (7 / 10) + (if seed_of p mod 4 \<noteq> 0 then 0 else 2 / 10),
      delayRisk =
        rat_of_int (seed_of p mod 100) / 100 * (6 / 10) + (if seed_of p mod 7 \<noteq> 0 then 0 else 25 / 100),
      implementationRisk =
        rat_of_int (seed_of p mod 100) / 100 * (5 / 10) + (if seed_of p mod 6 \<noteq> 0 then 0 else 2 / 10) \<rparr>"
proof -
  let ?k = "rat_of_int (seed_of p mod 100)"
  have k: "0 \<le> ?k" "?k \<le> 99"
    by simp_all
  have "clamp01 (?k / 100 * (7 / 10) + (if seed_of p mod 4 \<noteq> 0 then 0 else 2 / 10))
          = ?k / 100 * (7 / 10) + (if seed_of p mod 4 \<noteq> 0 then 0 else 2 / 10)"
    using k by (intro clamp01_id) (simp_all add: field_simps)
  moreover have "clamp01 (?k / 100 * (6 / 10) + (if seed_of p mod 7 \<noteq> 0 then 0 else 25 / 100))
          = ?k / 100 * (6 / 10) + (if seed_of p mod 7 \<noteq> 0 then 0 else 25 / 100)"
    using k by (intro clamp01_id) (simp_all add: field_simps)
  moreover have "clamp01 (?k / 100 * (5 / 10) + (if seed_of p mod 6 \<noteq> 0 then 0 else 2 / 10))
          = ?k / 100 * (5 / 10) + (if seed_of p mod 6 \<noteq> 0 then 0 else 2 / 10)"
    using k by (intro clamp01_id) (simp_all add: field_simps)
  ultimately show ?thesis
    by (simp only: pd_risk)
qed

lemma impact_argument_grid:
  "\<exists>m. (1 - (costOverrunRisk (risk (fst (processDocument p s)))
             + delayRisk (risk (fst (processDocument p s)))
             + implementationRisk (risk (fst (processDocument p s)))) / 3) * 20 = rat_of_int m / 75"
proof -
  let ?k = "seed_of p mod 100"
  let ?a = "if seed_of p mod 4 \<noteq> 0 then 0 else (100::int)"
  let ?b = "if seed_of p mod 7 \<noteq> 0 then 0 else (125::int)"
  let ?c = "if seed_of p mod 6 \<noteq> 0 then 0 else (100::int)"
  have "(1 - (costOverrunRisk (risk (fst (processDocument p s)))
             + delayRisk (risk (fst (processDocument p s)))
             + implementationRisk (risk (fst (processDocument p s)))) / 3) * 20
        = rat_of_int (1500 - 9 * ?k - ?a - ?b - ?c) / 75"
    by (simp add: risk_unclamped field_simps)
  then show ?thesis by blast
qed

lemma impact_round_margin:
  "1 / 150 \<le> \<bar>(1 - (costOverrunRisk (risk (fst (processDocument p s)))
             + delayRisk (risk (fst (processDocument p s)))
             + implementationRisk (risk (fst (processDocument p s)))) / 3) * 20 - (of_int n + 1 / 2)\<bar>"
proof -
  obtain m where "(1 - (costOverrunRisk (risk (fst (processDocument p s)))
             + delayRisk (risk (fst (processDocument p s)))
             + implementationRisk (risk (fst (processDocument p s)))) / 3) * 20 = rat_of_int m / 75"
    using impact_argument_grid by blast
  then show ?thesis by (simp only: tie_margin)
qed

lemma delay_threshold_margin:
  "1 / 500 \<le> \<bar>delayRisk (risk (fst (processDocument p s))) - 1 / 2\<bar>"
proof -
  let ?k = "seed_of p mod 100"
  let ?b = "if seed_of p mod 7 \<noteq> 0 then 0 else (125::int)"
  have eq: "delayRisk (risk (fst (processDocument p s))) - 1 / 2 = rat_of_int (3 * ?k + ?b - 250) / 500"
    by (simp add: risk_unclamped field_simps)
  have "3 * ?k + ?b - 250 \<noteq> 0" by presburger
  then have "1 \<le> \<bar>3 * ?k + ?b - 250\<bar>" by linarith
  then have "1 \<le> \<bar>rat_of_int (3 * ?k + ?b - 250)\<bar>"
    by (metis of_int_1 of_int_abs of_int_le_iff)
  then show ?thesis
    unfolding eq by (simp add: abs_divide)
qed

subsection \<open>Two concrete calls\<close>

lemma seed_doc3: "seed_of \<lparr>uploadId = utf16 ''3'', language = EN\<rparr> = 51228"
  by (simp add: seed_of_def hash_def utf16_def)

lemma seed_doc9: "seed_of \<lparr>uploadId = utf16 ''9'', language = HI\<rparr> = 57082"
  by (simp add: seed_of_def hash_def utf16_def)

lemma total_doc9:
  "total (scores (fst (processDocument \<lparr>uploadId = utf16 ''9'', language = HI\<rparr> s))) = Num 90"
  by (simp add: pd_total pd_completeness pd_compliance pd_technicalQuality pd_impactSustainability
      pd_risk seed_doc9 js_eval)

lemma total_doc3:
  "total (scores (fst (processDocument \<lparr>uploadId = utf16 ''3'', language = EN\<rparr> s))) = Num 70"
  by (simp add: pd_total pd_completeness pd_compliance pd_technicalQuality pd_impactSustainability
      pd_risk seed_doc3 js_eval)

lemma scores_doc3:
  "scores (fst (processDocument \<lparr>uploadId = utf16 ''3'', language = EN\<rparr> s)) =
     \<lparr>completeness = Num 30, compliance = Num 13,
       technicalQuality = Num 13, impactSustainability = Num 14,
       total = Num 70, grade = Fair\<rparr>"
  by (rule Scores.equality)
     (simp_all add: pd_completeness pd_compliance pd_technicalQuality pd_impactSustainability
        pd_risk pd_grade total_doc3 grade_of_total_Num seed_doc3 js_eval)

lemma risk_doc3:
  "risk (fst (processDocument \<lparr>uploadId = utf16 ''3'', language = EN\<rparr> s)) =
     \<lparr>costOverrunRisk = 99 / 250, delayRisk = 21 / 125, implementationRisk = 17 / 50\<rparr>"
  by (simp add: pd_risk seed_doc3 js_eval)

lemma flags_doc3:
  "flags (fst (processDocument \<lparr>uploadId = utf16 ''3'', language = EN\<rparr> s)) =
     \<lparr>budgetMismatch = True, timelineIssues = False, missingData = True,
       ineligibleSector = Some True\<rparr>"
  by (simp add: pd_flags seed_doc3)

lemma recommendations_doc3:
  "recommendations (fst (processDocument \<lparr>uploadId = utf16 ''3'', language = EN\<rparr> s)) =
      [''Review budget allocations to resolve mismatches against scope.'',
       ''Provide missing documentation and KPI evidence.'',
       ''Ensure GST, O&M, and certificates are fully documented.'',
       ''Align design with GatiShakti and SOR standards.'']"
  by (simp add: pd_recommendations scores_doc3 risk_doc3 flags_doc3 buildRecommendations_fired
      fired_def rules_def)

text \<open>The whole result of the first of them.\<close>

lemma processDocument_doc3:
  "fst (processDocument \<lparr>uploadId = utf16 ''3'', language = EN\<rparr> initial_store) =
   \<lparr>validation =
      \<lparr>projectProfile = \<lparr>geoCoordinates = True, timeline = True\<rparr>,
       beneficiary = \<lparr>sdgMpiAligned = True, kpisPresent = True\<rparr>,
       financial = \<lparr>gstComponents = False, omFourYears = False\<rparr>,
       technical = \<lparr>gatiShaktiAligned = False, sorBasis = True\<rparr>,
       certificates = \<lparr>landAvailability = True, nonDuplication = True\<rparr>\<rparr>,
    scores =
      \<lparr>completeness = Num 30, compliance = Num 13,
       technicalQuality = Num 13, impactSustainability = Num 14,
       total = Num 70, grade = Fair\<rparr>,
    eligibility =
      \<lparr>sizeCheckOk = True, outOfRange = Some False, negativeList = True\<rparr>,
    flags =
      \<lparr>budgetMismatch = True, timelineIssues = False, missingData = True,
       ineligibleSector = Some True\<rparr>,
    risk =
      \<lparr>costOverrunRisk = 99 / 250, delayRisk = 21 / 125,
       implementationRisk = 17 / 50\<rparr>,
    recommendations =
      [''Review budget allocations to resolve mismatches against scope.'',
       ''Provide missing documentation and KPI evidence.'',
       ''Ensure GST, O&M, and certificates are fully documented.'',
       ''Align design with GatiShakti and SOR standards.'']\<rparr>"
  by (rule ProcessingResult.equality)
     (simp_all add: scores_doc3 risk_doc3 flags_doc3 recommendations_doc3 pd_validation
        pd_eligibility seed_doc3)

section \<open>The scorer\<close>




section \<open>Determinism\<close>

text \<open>
  C2. Two calls of \<open>processDocument\<close> with the same upload identifier and the same
  language return the same \<open>ProcessingResult\<close>, every field of it: the result does not
  depend on the module's store (the documents and the results of earlier calls), neither
  when the two calls start from unrelated stores nor when the second call runs on the
  store the first one left behind.
\<close>

theorem processDocument_deterministic:
  "fst (processDocument p s1) = fst (processDocument p s2) \<and>
   fst (processDocument p (snd (processDocument p s1))) = fst (processDocument p s1)"
  by (simp add: processDocument_def Let_def)

section \<open>Bounds of the scores\<close>

text \<open>
  C4. For every input the four sub-scores are finite numbers within their ranges:
  completeness in 0..30, compliance in 0..25, technical quality in 0..25, impact and
  sustainability in 0..20; the total is their sum clamped into 0..100, hence between 0
  and 100.
\<close>

theorem scores_bounded:
  "\<exists>c k t i.
     completeness (scores (fst (processDocument p s))) = Num c \<and> 0 \<le> c \<and> c \<le> 30 \<and>
     compliance (scores (fst (processDocument p s))) = Num k \<and> 0 \<le> k \<and> k \<le> 25 \<and>
     technicalQuality (scores (fst (processDocument p s))) = Num t \<and> 0 \<le> t \<and> t \<le> 25 \<and>
     impactSustainability (scores (fst (processDocument p s))) = Num i \<and> 0 \<le> i \<and> i \<le> 20 \<and>
     total (scores (fst (processDocument p s))) = Num (max 0 (min 100 (c + k + t + i))) \<and>
     0 \<le> max 0 (min 100 (c + k + t + i)) \<and> max 0 (min 100 (c + k + t + i)) \<le> 100"
proof -
  let ?r = "fst (processDocument p s)"
  obtain c where c: "completeness (scores ?r) = Num c" "0 \<le> c" "c \<le> 30"
    by (simp add: pd_completeness score3)
  obtain k where k: "compliance (scores ?r) = Num k" "0 \<le> k" "k \<le> 25"
    using compliance_bounds by blast
  obtain t where t: "technicalQuality (scores ?r) = Num t" "0 \<le> t" "t \<le> 25"
    by (simp add: pd_technicalQuality score2)
  obtain i where i: "impactSustainability (scores ?r) = Num i" "0 \<le> i" "i \<le> 20"
    using impact_bounds by blast
  have tot: "total (scores ?r) = Num (max 0 (min 100 (c + k + t + i)))"
    by (simp add: pd_total c k t i)
  have "0 \<le> max 0 (min 100 (c + k + t + i))" "max 0 (min 100 (c + k + t + i)) \<le> 100"
    by simp_all
  with c k t i tot show ?thesis by blast
qed

section \<open>Grades\<close>

text \<open>
  C5. The grade of a result is read off its total as a percentage of the maximal total
  100, with breakpoints that include their lower bound: at least 90 percent is
  Excellent, at least 75 Good, at least 60 Fair, anything lower Poor. A total of exactly
  90 is Excellent.
\<close>

theorem grade_thresholds:
  "(\<exists>t. total (scores (fst (processDocument p s))) = Num t \<and>
        grade (scores (fst (processDocument p s))) =
          (if percentage t 100 \<ge> 90 then Excellent
           else if percentage t 100 \<ge> 75 then Good
           else if percentage t 100 \<ge> 60 then Fair
           else Poor)) \<and>
   grade_of_total (Num 90) = Excellent"
proof -
  obtain t where t: "total (scores (fst (processDocument p s))) = Num t"
    using total_is_Num by blast
  then have "grade (scores (fst (processDocument p s))) =
          (if percentage t 100 \<ge> 90 then Excellent
           else if percentage t 100 \<ge> 75 then Good
           else if percentage t 100 \<ge> 60 then Fair
           else Poor)"
    by (simp add: pd_grade grade_of_total_Num percentage_def)
  with t show ?thesis by (simp add: grade_of_total_Num)
qed

text \<open>The document \<open>9\<close> in Hindi reaches a total of exactly 90, and is graded Excellent.\<close>

theorem grade_thresholds_witness:
  "total (scores (fst (processDocument \<lparr>uploadId = utf16 ''9'', language = HI\<rparr> initial_store))) = Num 90 \<and>
   percentage 90 100 = 90 \<and>
   grade (scores (fst (processDocument \<lparr>uploadId = utf16 ''9'', language = HI\<rparr> initial_store))) = Excellent"
  using grade_thresholds [of "\<lparr>uploadId = utf16 ''9'', language = HI\<rparr>" initial_store]
  by (simp add: total_doc9 percentage_def)

text \<open>
  C6. Grading is monotone: a total above another one never gets a lower tier, for the
  grading expression on any two numbers and so for the grades of any two results.
\<close>

theorem grade_monotone:
  "(num_gt total1 total2 \<longrightarrow> tier (grade_of_total total2) \<le> tier (grade_of_total total1)) \<and>
   (num_gt (total (scores (fst (processDocument p1 s1)))) (total (scores (fst (processDocument p2 s2))))
      \<longrightarrow> tier (grade (scores (fst (processDocument p2 s2))))
            \<le> tier (grade (scores (fst (processDocument p1 s1)))))"
proof -
  have mono: "num_gt a b \<longrightarrow> tier (grade_of_total b) \<le> tier (grade_of_total a)" for a b
    by (cases a; cases b) (simp_all add: grade_of_total_def)
  show ?thesis
    using mono [of total1 total2] by (simp add: pd_grade mono)
qed

theorem grade_monotone_witness:
  "num_gt (Num 90) (Num 89) \<and> tier (grade_of_total (Num 89)) \<le> tier (grade_of_total (Num 90)) \<and>
   num_gt (total (scores (fst (processDocument \<lparr>uploadId = utf16 ''9'', language = HI\<rparr> initial_store))))
          (total (scores (fst (processDocument \<lparr>uploadId = utf16 ''3'', language = EN\<rparr> initial_store)))) \<and>
   tier (grade (scores (fst (processDocument \<lparr>uploadId = utf16 ''3'', language = EN\<rparr> initial_store))))
     \<le> tier (grade (scores (fst (processDocument \<lparr>uploadId = utf16 ''9'', language = HI\<rparr> initial_store))))"
  using grade_monotone [of "Num 90" "Num 89" "\<lparr>uploadId = utf16 ''9'', language = HI\<rparr>" initial_store
                           "\<lparr>uploadId = utf16 ''3'', language = EN\<rparr>" initial_store]
  by (simp add: total_doc9 total_doc3)

section \<open>Risk\<close>

text \<open>
  C7. Each risk is \<open>clamp01 (base_risk * weight + penalty)\<close>: the base risk comes from the
  hash of the upload identifier followed by the language; the weights are 0.7 (cost
  overrun), 0.6 (delay) and 0.5 (implementation); the penalty is 0.2, 0.25 and 0.2, added
  exactly when the operation and maintenance plan, the timeline and the GatiShakti
  alignment, respectively, are not confirmed. Every risk lies between 0 and 1.
  Arithmetic is exact here; the source computes in IEEE doubles.
\<close>

theorem risk_formula:
  "costOverrunRisk (risk (fst (processDocument p s))) =
     clamp01 (base_risk p * (7 / 10)
              + (if omFourYears (financial (validation (fst (processDocument p s)))) then 0 else 2 / 10)) \<and>
   delayRisk (risk (fst (processDocument p s))) =
     clamp01 (base_risk p * (6 / 10)
              + (if timeline (projectProfile (validation (fst (processDocument p s)))) then 0 else 25 / 100)) \<and>
   implementationRisk (risk (fst (processDocument p s))) =
     clamp01 (base_risk p * (5 / 10)
              + (if gatiShaktiAligned (technical (validation (fst (processDocument p s)))) then 0 else 2 / 10)) \<and>
   0 \<le> costOverrunRisk (risk (fst (processDocument p s))) \<and>
   costOverrunRisk (risk (fst (processDocument p s))) \<le> 1 \<and>
   0 \<le> delayRisk (risk (fst (processDocument p s))) \<and>
   delayRisk (risk (fst (processDocument p s))) \<le> 1 \<and>
   0 \<le> implementationRisk (risk (fst (processDocument p s))) \<and>
   implementationRisk (risk (fst (processDocument p s))) \<le> 1"
  using risks_in_unit [of p s] by (simp add: pd_risk pd_validation base_risk_seed)

section \<open>Eligibility\<close>

text \<open>
  C8. In every result \<open>outOfRange\<close> is present and is the negation of \<open>sizeCheckOk\<close>.
\<close>

theorem outOfRange_derived:
  "outOfRange (eligibility (fst (processDocument p s)))
     = Some (\<not> sizeCheckOk (eligibility (fst (processDocument p s))))"
  by (simp add: pd_eligibility)

section \<open>Recommendations\<close>

text \<open>
  C9. The recommendation engine is the ordered rule list of the specification (budget
  mismatch, timeline issues, missing data, delay risk above 0.5, compliance below 20,
  technical quality below 18): it returns the messages of the rules that hold, in that
  order, and the single fallback message when none holds. The list is never empty, for
  any scores, flags and risk, and so for the recommendations of every result.
\<close>

theorem recommendations_rule_ordered:
  "buildRecommendations scs flgs rsk =
     (if fired scs flgs rsk = [] then [fallback_message] else fired scs flgs rsk) \<and>
   1 \<le> length (buildRecommendations scs flgs rsk) \<and>
   recommendations (fst (processDocument p s)) =
     buildRecommendations (scores (fst (processDocument p s))) (flags (fst (processDocument p s)))
       (risk (fst (processDocument p s))) \<and>
   1 \<le> length (recommendations (fst (processDocument p s)))"
  using buildRecommendations_fired [of scs flgs rsk] buildRecommendations_nonempty [of scs flgs rsk]
    pd_recommendations [of p s]
    buildRecommendations_nonempty [of "scores (fst (processDocument p s))"
      "flags (fst (processDocument p s))" "risk (fst (processDocument p s))"]
  by simp

section \<open>Checks that cannot fail\<close>

text \<open>
  C10. In every result the checks \<open>geoCoordinates\<close>, \<open>kpisPresent\<close>, \<open>sorBasis\<close> and
  \<open>nonDuplication\<close> are true; hence completeness is at least 20 of 30 and technical
  quality at least 13 of 25.
\<close>

theorem fixed_checks_always_true:
  "geoCoordinates (projectProfile (validation (fst (processDocument p s)))) \<and>
   kpisPresent (beneficiary (validation (fst (processDocument p s)))) \<and>
   sorBasis (technical (validation (fst (processDocument p s)))) \<and>
   nonDuplication (certificates (validation (fst (processDocument p s)))) \<and>
   (\<exists>c. completeness (scores (fst (processDocument p s))) = Num c \<and> 20 \<le> c \<and> c \<le> 30) \<and>
   (\<exists>t. technicalQuality (scores (fst (processDocument p s))) = Num t \<and> 13 \<le> t \<and> t \<le> 25)"
  by (simp add: pd_validation pd_completeness pd_technicalQuality score3 score2)

end
